theory Spec2Isabelle
  imports Complex_Main
begin

section \<open>Birdhouse training planner: data model\<close>

text \<open>
  The planner reads three JSON tables at import time and keeps them in module-level
  variables. The tables are not part of the program text, so every function below takes
  the table it reads as an explicit argument.

  \<^item> \<open>levels\<close> is a dictionary from level to the experience that level needs. The code
    iterates it with \<open>levels.items()\<close>, so its insertion order matters: it is an
    association list, read with \<open>map_of\<close>. A dictionary has no repeated key; theorems
    that depend on that say so.
  \<^item> \<open>birdhouses\<close> is an ordered dictionary from tier name to a JSON object of which the
    program reads the two fields \<open>'Hunter Level'\<close> and \<open>'Hunter XP'\<close>. The object is a
    record; whatever else the object holds lives in the record's extension slot.
  \<^item> Levels and log counts are Python integers (\<open>int\<close>). Experience amounts and yields are
    JSON numbers, which a multiplier may turn into fractions: they are exact rationals,
    so \<open>/\<close> is exact division and \<open>math.ceil\<close> is the ceiling of the exact quotient.
    The rounding of Python's floating-point division is not modelled.
\<close>

datatype py_error = KeyError | ValueError | ZeroDivisionError

type_synonym levels = "(int \<times> rat) list"

record birdhouse =
  Hunter_Level :: int
  Hunter_XP :: rat

type_synonym 'a birdhouses = "(string \<times> 'a birdhouse_scheme) list"

type_synonym plan_step = "(string \<times> int) list"

text \<open>\<open>d[k]\<close> on a dictionary: the value, or \<open>KeyError\<close>.\<close>

definition getitem :: "('k \<times> 'v) list \<Rightarrow> 'k \<Rightarrow> py_error + 'v" where
  "getitem d k = (case map_of d k of None \<Rightarrow> Inl KeyError | Some v \<Rightarrow> Inr v)"

section \<open>Level resolver\<close>

text \<open>
  \<^verbatim>\<open>
  def check_level(xp_to_check):
      for level, experience in levels.items():
          if xp_to_check < experience:
              return level - 1
      return max(levels.keys())
  \<close>
  The scan returns \<open>None\<close> when the loop falls through; \<open>max\<close> of no keys raises
  \<open>ValueError\<close>.
\<close>

fun check_level_scan :: "levels \<Rightarrow> rat \<Rightarrow> int option" where
  "check_level_scan [] xp_to_check = None"
| "check_level_scan ((level, experience) # rest) xp_to_check =
     (if xp_to_check < experience then Some (level - 1)
      else check_level_scan rest xp_to_check)"

definition check_level :: "levels \<Rightarrow> rat \<Rightarrow> py_error + int" where
  "check_level levels xp_to_check =
     (case check_level_scan levels xp_to_check of
        Some l \<Rightarrow> Inr l
      | None \<Rightarrow> if levels = [] then Inl ValueError else Inr (Max (set (map fst levels))))"

section \<open>Tier resolver\<close>

text \<open>
  \<^verbatim>\<open>
  def check_birdhouse_tier(level, birdhouses):
      current_tier = "None"
      for tier, tier_level in birdhouses.items():
          if level < tier_level['Hunter Level']:
              return current_tier, tier
          current_tier = tier
      return current_tier, None
  \<close>
  The first component is a string (the sentinel is the string \<open>"None"\<close>); the second is a
  tier name or Python's \<open>None\<close>.
\<close>

fun tier_scan :: "int \<Rightarrow> 'a birdhouses \<Rightarrow> string \<Rightarrow> string \<times> string option" where
  "tier_scan level [] current_tier = (current_tier, None)"
| "tier_scan level ((tier, tier_level) # rest) current_tier =
     (if level < Hunter_Level tier_level then (current_tier, Some tier)
      else tier_scan level rest tier)"

definition check_birdhouse_tier :: "int \<Rightarrow> 'a birdhouses \<Rightarrow> string \<times> string option" where
  "check_birdhouse_tier level birdhouses = tier_scan level birdhouses ''None''"

section \<open>Plan steps\<close>

text \<open>
  \<^verbatim>\<open>
  def format_logs(birdhouse_tier, logs_needed):
      log_tier = birdhouse_tier.split(" ")[0]
      return {f"{log_tier} logs": logs_needed}
  \<close>
  \<open>split(" ")[0]\<close> is the text before the first space (the whole text when there is
  none). The result is a dictionary with one entry.
\<close>

definition format_logs :: "string \<Rightarrow> int \<Rightarrow> plan_step" where
  "format_logs birdhouse_tier logs_needed =
     (let log_tier = takeWhile (\<lambda>c. c \<noteq> CHR '' '') birdhouse_tier
      in [(log_tier @ '' logs'', logs_needed)])"

section \<open>Benchmark stepper\<close>

text \<open>
  \<^verbatim>\<open>
  def calc_trips_to_next_benchmark(current_xp, target_level, birdhouses):
      xp_to_target = levels[target_level] - current_xp
      current_level = check_level(current_xp)
      birdhouse_tier = check_birdhouse_tier(current_level, birdhouses)[0]
      trip_xp = birdhouses[birdhouse_tier]['Hunter XP'] * 4
      total_trips = math.ceil(xp_to_target / trip_xp)
      xp_gain = total_trips * trip_xp
      end_xp = xp_gain + current_xp
      logs_needed = total_trips * 4
      return total_trips, logs_needed, end_xp
  \<close>
\<close>

definition calc_trips_to_next_benchmark ::
  "levels \<Rightarrow> rat \<Rightarrow> int \<Rightarrow> 'a birdhouses \<Rightarrow> py_error + (int \<times> int \<times> rat)" where
  "calc_trips_to_next_benchmark levels current_xp target_level birdhouses =
     (case getitem levels target_level of Inl e \<Rightarrow> Inl e | Inr target_xp \<Rightarrow>
       (let xp_to_target = target_xp - current_xp in
         (case check_level levels current_xp of Inl e \<Rightarrow> Inl e | Inr current_level \<Rightarrow>
           (let birdhouse_tier = fst (check_birdhouse_tier current_level birdhouses) in
             (case getitem birdhouses birdhouse_tier of Inl e \<Rightarrow> Inl e | Inr b \<Rightarrow>
               (let trip_xp = Hunter_XP b * 4 in
                 (if trip_xp = 0 then Inl ZeroDivisionError
                  else (let total_trips = \<lceil>xp_to_target / trip_xp\<rceil>;
                            xp_gain = of_int total_trips * trip_xp;
                            end_xp = xp_gain + current_xp;
                            logs_needed = total_trips * 4
                        in Inr (total_trips, logs_needed, end_xp)))))))))"

text \<open>
  The body of the loop of \<open>calc_trips_to_target\<close>, on the loop's three variables.
  \<^verbatim>\<open>
      current_tier, next_tier = check_birdhouse_tier(current_level, birdhouses)
      if next_tier is None or target_level < birdhouses[next_tier]['Hunter Level']:
          next_benchmark = levels[target_level]
      else:
          next_benchmark = levels[birdhouses[next_tier]['Hunter Level']]
      birdhouse_xp = birdhouses[current_tier]['Hunter XP'] * 4
      trips = math.ceil((next_benchmark - current_xp) / birdhouse_xp)
      xp_gain = trips * birdhouse_xp
      current_xp += xp_gain
      logs_needed = trips * 4
      logs_to_target.append(format_logs(current_tier, logs_needed))
      current_level = check_level(current_xp)
  \<close>
\<close>

record loop_state =
  current_xp :: rat
  current_level :: int
  logs_to_target :: "plan_step list"

definition next_benchmark ::
  "levels \<Rightarrow> 'a birdhouses \<Rightarrow> int \<Rightarrow> string option \<Rightarrow> py_error + rat" where
  "next_benchmark levels birdhouses target_level next_tier =
     (case next_tier of
        None \<Rightarrow> getitem levels target_level
      | Some nt \<Rightarrow>
          (case getitem birdhouses nt of Inl e \<Rightarrow> Inl e | Inr b \<Rightarrow>
           if target_level < Hunter_Level b then getitem levels target_level
           else getitem levels (Hunter_Level b)))"

definition loop_body ::
  "levels \<Rightarrow> 'a birdhouses \<Rightarrow> int \<Rightarrow> loop_state \<Rightarrow> py_error + loop_state" where
  "loop_body levels birdhouses target_level s =
     (case check_birdhouse_tier (current_level s) birdhouses of (current_tier, next_tier) \<Rightarrow>
       (case next_benchmark levels birdhouses target_level next_tier of
          Inl e \<Rightarrow> Inl e
        | Inr benchmark \<Rightarrow>
           (case getitem birdhouses current_tier of
              Inl e \<Rightarrow> Inl e
            | Inr b \<Rightarrow>
               (let birdhouse_xp = Hunter_XP b * 4 in
                 (if birdhouse_xp = 0 then Inl ZeroDivisionError
                  else (let trips = \<lceil>(benchmark - current_xp s) / birdhouse_xp\<rceil>;
                            xp_gain = of_int trips * birdhouse_xp;
                            new_xp = current_xp s + xp_gain;
                            logs_needed = trips * 4
                        in (case check_level levels new_xp of
                              Inl e \<Rightarrow> Inl e
                            | Inr new_level \<Rightarrow>
                                Inr \<lparr>current_xp = new_xp, current_level = new_level,
                                     logs_to_target =
                                       logs_to_target s @ [format_logs current_tier logs_needed]\<rparr>)))))))"

text \<open>
  \<^verbatim>\<open>
  def calc_trips_to_target(current_xp, target_level, birdhouses):
      logs_to_target = []
      current_level = check_level(current_xp)
      while current_level < target_level:
          ...
      return logs_to_target
  \<close>
  Nothing in the code bounds the loop (a negative yield can leave \<open>current_xp\<close> where it
  is), so the loop is a partial function: \<open>None\<close> is a run that never returns.
\<close>

partial_function (option) stepper_loop ::
  "levels \<Rightarrow> 'a birdhouses \<Rightarrow> int \<Rightarrow> loop_state \<Rightarrow> (py_error + loop_state) option" where
  "stepper_loop levels birdhouses target_level s =
     (if current_level s < target_level then
        (case loop_body levels birdhouses target_level s of
           Inl e \<Rightarrow> Some (Inl e)
         | Inr s' \<Rightarrow> stepper_loop levels birdhouses target_level s')
      else Some (Inr s))"

declare stepper_loop.simps [code]

text \<open>The loop variables when the loop is first reached.\<close>

definition init_state :: "rat \<Rightarrow> int \<Rightarrow> loop_state" where
  "init_state start_xp l = \<lparr>current_xp = start_xp, current_level = l, logs_to_target = []\<rparr>"

definition calc_trips_to_target ::
  "levels \<Rightarrow> rat \<Rightarrow> int \<Rightarrow> 'a birdhouses \<Rightarrow> (py_error + plan_step list) option" where
  "calc_trips_to_target levels start_xp target_level birdhouses =
     (case check_level levels start_xp of
        Inl e \<Rightarrow> Some (Inl e)
      | Inr l \<Rightarrow>
          map_option (map_sum id logs_to_target)
            (stepper_loop levels birdhouses target_level (init_state start_xp l)))"

text \<open>
  The loop variables at the head of the loop, for the first \<open>n\<close> iterations: the state
  the loop starts in, then the state each completed iteration leaves. The list ends
  where the loop condition fails or an iteration raises.
\<close>

fun loop_trace ::
  "nat \<Rightarrow> levels \<Rightarrow> 'a birdhouses \<Rightarrow> int \<Rightarrow> loop_state \<Rightarrow> loop_state list" where
  "loop_trace 0 levels birdhouses target_level s = [s]"
| "loop_trace (Suc n) levels birdhouses target_level s =
     s # (if current_level s < target_level then
            (case loop_body levels birdhouses target_level s of
               Inl e \<Rightarrow> []
             | Inr s' \<Rightarrow> loop_trace n levels birdhouses target_level s')
          else [])"

section \<open>Input step and entry point\<close>

text \<open>
  \<^verbatim>\<open>
  def get_inputs():
      while True:
          experience = input(...)
          try:
              experience = int(experience)
              if experience < levels[5]:
                  print("You need at least 5 Hunter to make a birdhouse.")
                  return None, None
          except TypeError:
              print("Sorry, try entering a whole number.")
          target_level = input(...)
          try:
              target_level = int(target_level)
              if experience > levels[target_level]:
                  print("You've already passed your target.")
                  return None, None
              return experience, target_level
          except TypeError:
              print("Sorry, try entering a whole number.")
  \<close>
  The model starts from the two parsed integers. Once both texts parse, nothing in
  the body raises \<open>TypeError\<close>, so the first pass through the loop returns or raises
  \<open>KeyError\<close>. The result is the lines printed and the pair returned; \<open>None\<close> stands
  for \<open>(None, None)\<close>.
\<close>

definition get_inputs ::
  "levels \<Rightarrow> int \<Rightarrow> int \<Rightarrow> py_error + (string list \<times> (int \<times> int) option)" where
  "get_inputs levels experience target_level =
     (case getitem levels 5 of
        Inl e \<Rightarrow> Inl e
      | Inr level5_xp \<Rightarrow>
          (if of_int experience < level5_xp
           then Inr ([''You need at least 5 Hunter to make a birdhouse.''], None)
           else (case getitem levels target_level of
                   Inl e \<Rightarrow> Inl e
                 | Inr target_xp \<Rightarrow>
                     (if of_int experience > target_xp
                      then Inr ([''You've already passed your target.''], None)
                      else Inr ([], Some (experience, target_level))))))"

text \<open>
  \<^verbatim>\<open>
  def check_leagues():
      check = input("Type 1 if this is Leagues. ")
      if check == "1":
          return True
      else:
          return False
  \<close>
\<close>

definition check_leagues :: "string \<Rightarrow> bool" where
  "check_leagues check = (if check = ''1'' then True else False)"

text \<open>
  The table that \<open>main\<close> plans with.
  \<^verbatim>\<open>
      if leagues_flag:
          relic_tier = get_relic_multiplier()
          multiplier = leagues_multipliers[relic_tier]
          birdhouses = {key: {k: (v * multiplier if k == "Hunter XP" else v)
                              for k, v in value.items()}
                        for key, value in base_birdhouses.items()}
      else:
          birdhouses = base_birdhouses
  \<close>
  The inner comprehension keeps every field of a tier but \<open>'Hunter XP'\<close>, which it
  multiplies: on the record that is an update of \<open>Hunter_XP\<close>.
\<close>

definition scale_birdhouses :: "rat \<Rightarrow> 'a birdhouses \<Rightarrow> 'a birdhouses" where
  "scale_birdhouses multiplier base_birdhouses =
     map (\<lambda>(key, fields). (key, fields\<lparr>Hunter_XP := Hunter_XP fields * multiplier\<rparr>))
       base_birdhouses"

definition effective_birdhouses ::
  "(int \<times> rat) list \<Rightarrow> 'a birdhouses \<Rightarrow> bool \<Rightarrow> int \<Rightarrow> py_error + 'a birdhouses" where
  "effective_birdhouses leagues_multipliers base_birdhouses leagues_flag relic_tier =
     (if leagues_flag then
        (case getitem leagues_multipliers relic_tier of
           Inl e \<Rightarrow> Inl e
         | Inr multiplier \<Rightarrow> Inr (scale_birdhouses multiplier base_birdhouses))
      else Inr base_birdhouses)"

text \<open>
  \<^verbatim>\<open>
  def main():
      start_xp, end_level = get_inputs()
      leagues_flag = check_leagues()
      if leagues_flag: ... else: ...
      if end_level:
          training_path = calc_trips_to_target(start_xp, end_level, birdhouses)
          display_plan(start_xp, training_path)
  \<close>
  The arguments are what the prompts return: the two parsed integers, the answer to the
  Leagues prompt and the tier \<open>get_relic_multiplier\<close> returns. The result is the lines
  \<open>get_inputs\<close> printed and the training path, \<open>None\<close> when none is computed.
  \<open>if end_level\<close> is false for \<open>None\<close> and for \<open>0\<close>.
\<close>

definition main ::
  "levels \<Rightarrow> (int \<times> rat) list \<Rightarrow> 'a birdhouses \<Rightarrow> int \<Rightarrow> int \<Rightarrow> string \<Rightarrow> int
     \<Rightarrow> (py_error + (string list \<times> plan_step list option)) option" where
  "main levels leagues_multipliers base_birdhouses experience target_level check relic_tier =
     (case get_inputs levels experience target_level of
        Inl e \<Rightarrow> Some (Inl e)
      | Inr (printed, inputs) \<Rightarrow>
          (case effective_birdhouses leagues_multipliers base_birdhouses
                  (check_leagues check) relic_tier of
             Inl e \<Rightarrow> Some (Inl e)
           | Inr birdhouses \<Rightarrow>
               (case inputs of
                  None \<Rightarrow> Some (Inr (printed, None))
                | Some (start_xp, end_level) \<Rightarrow>
                    (if end_level \<noteq> 0 then
                       map_option (map_sum id (\<lambda>training_path. (printed, Some training_path)))
                         (calc_trips_to_target levels (of_int start_xp) end_level birdhouses)
                     else Some (Inr (printed, None))))))"

section \<open>Well-formed tables and the specification's notions\<close>

text \<open>
  The level table is written in ascending level order with thresholds that never
  decrease; the scan of \<open>check_level\<close> relies on it. (The specification asks for
  strictly increasing thresholds, a special case.)
\<close>

definition wf_levels :: "levels \<Rightarrow> bool" where
  "wf_levels levels \<longleftrightarrow>
     levels \<noteq> [] \<and> sorted_wrt (<) (map fst levels) \<and> sorted (map snd levels)"

text \<open>
  The specification's band of a level: \<open>L[l] \<le> x < L[l+1]\<close>, the upper bound
  dropped when \<open>l + 1\<close> is not tabulated.
\<close>

definition in_level_band :: "levels \<Rightarrow> rat \<Rightarrow> int \<Rightarrow> bool" where
  "in_level_band levels x l \<longleftrightarrow>
     (case map_of levels l of
        None \<Rightarrow> False
      | Some e \<Rightarrow> e \<le> x \<and> (case map_of levels (l + 1) of None \<Rightarrow> True | Some e' \<Rightarrow> x < e'))"

text \<open>
  The specification's tier resolver: the last tier whose unlock level is at most the
  level (the sentinel when there is none), and the first tier whose unlock level
  exceeds it.
\<close>

definition last_unlocked :: "int \<Rightarrow> 'a birdhouses \<Rightarrow> string" where
  "last_unlocked lvl birdhouses =
     (let unlocked = filter (\<lambda>(tier, b). Hunter_Level b \<le> lvl) birdhouses
      in if unlocked = [] then ''None'' else fst (last unlocked))"

definition first_locked :: "int \<Rightarrow> 'a birdhouses \<Rightarrow> string option" where
  "first_locked lvl birdhouses =
     map_option fst (find (\<lambda>(tier, b). lvl < Hunter_Level b) birdhouses)"

text \<open>
  The specification's benchmark at a level: the target's threshold when no tier is
  locked or the first locked tier unlocks above the target, else the threshold of that
  tier's unlock level.
\<close>

definition spec_benchmark :: "levels \<Rightarrow> 'a birdhouses \<Rightarrow> int \<Rightarrow> int \<Rightarrow> py_error + rat" where
  "spec_benchmark levels birdhouses target_level lvl =
     (case find (\<lambda>(tier, b). lvl < Hunter_Level b) birdhouses of
        None \<Rightarrow> getitem levels target_level
      | Some (tier, b) \<Rightarrow>
          if target_level < Hunter_Level b then getitem levels target_level
          else getitem levels (Hunter_Level b))"



section \<open>Sample tables\<close>

text \<open>
  The JSON files are not part of the program text. These tables hold the first 25
  levels of the game's experience table, its first three birdhouse tiers and a
  multiplier table; the general theorems below are evaluated on them.
\<close>

definition sample_levels :: levels where
  "sample_levels =
     [(1, 0), (2, 83), (3, 174), (4, 276), (5, 388), (6, 512), (7, 650), (8, 801),
      (9, 969), (10, 1154), (11, 1358), (12, 1584), (13, 1833), (14, 2107), (15, 2411),
      (16, 2746), (17, 3115), (18, 3523), (19, 3973), (20, 4470), (21, 5018),
      (22, 5624), (23, 6291), (24, 7028), (25, 7842)]"

definition sample_birdhouses :: "unit birdhouses" where
  "sample_birdhouses =
     [(''Regular birdhouse'', \<lparr>Hunter_Level = 5, Hunter_XP = 280\<rparr>),
      (''Oak birdhouse'', \<lparr>Hunter_Level = 15, Hunter_XP = 420\<rparr>),
      (''Willow birdhouse'', \<lparr>Hunter_Level = 25, Hunter_XP = 560\<rparr>)]"

definition regular_only :: "unit birdhouses" where
  "regular_only = [(''Regular birdhouse'', \<lparr>Hunter_Level = 5, Hunter_XP = 280\<rparr>)]"

definition sample_multipliers :: "(int \<times> rat) list" where
  "sample_multipliers = [(1, 5), (2, 5), (3, 8), (4, 8), (5, 12), (6, 12), (7, 16)]"

section \<open>Lemmas: the level resolver\<close>

lemma check_level_scan_None:
  "check_level_scan levels x = None \<longleftrightarrow> (\<forall>(l, e) \<in> set levels. e \<le> x)"
  by (induction levels x rule: check_level_scan.induct) auto

lemma check_level_scan_key:
  "check_level_scan levels x = Some l \<Longrightarrow> l + 1 \<in> fst ` set levels"
  by (induction levels x rule: check_level_scan.induct) (auto split: if_splits)

lemma check_level_scan_Some:
  assumes "sorted_wrt (<) (map fst levels)" "sorted (map snd levels)"
    and "check_level_scan levels x = Some l" and "(l', e) \<in> set levels"
  shows "l' \<le> l \<longleftrightarrow> e \<le> x"
  using assms
proof (induction levels x rule: check_level_scan.induct)
  case (1 x)
  then show ?case by simp
next
  case (2 level experience rest x)
  show ?case
  proof (cases "x < experience")
    case True
    with 2 show ?thesis by (auto simp: )
  next
    case False
    with 2 have scan: "check_level_scan rest x = Some l" by simp
    from check_level_scan_key [OF scan] 2(2) have "level \<le> l" by force
    with 2 False scan show ?thesis by auto
  qed
qed

lemma check_level_wf:
  assumes "wf_levels levels"
  shows "\<exists>l. check_level levels x = Inr l \<and> (\<forall>(l', e) \<in> set levels. l' \<le> l \<longleftrightarrow> e \<le> x)"
proof (cases "check_level_scan levels x")
  case None
  with assms have "check_level levels x = Inr (Max (set (map fst levels)))"
    by (simp add: check_level_def wf_levels_def)
  moreover have "\<forall>(l', e) \<in> set levels. l' \<le> Max (set (map fst levels))"
    by (force intro!: Max_ge)
  moreover from None have "\<forall>(l', e) \<in> set levels. e \<le> x"
    by (simp add: check_level_scan_None)
  ultimately show ?thesis by auto
next
  case (Some l)
  then have "check_level levels x = Inr l" by (simp add: check_level_def)
  with check_level_scan_Some [OF _ _ Some] assms show ?thesis
    by (auto simp: wf_levels_def)
qed

lemma check_level_ge_iff:
  assumes "wf_levels levels" "check_level levels x = Inr l" "map_of levels l' = Some e"
  shows "l' \<le> l \<longleftrightarrow> e \<le> x"
  using check_level_wf [OF assms(1), of x] assms(2) map_of_SomeD [OF assms(3)] by auto

lemma check_level_range:
  assumes "check_level levels x = Inr l"
  shows "l + 1 \<in> fst ` set levels \<or> l = Max (fst ` set levels)"
  using assms check_level_scan_key [of levels x]
  by (auto simp: check_level_def split: option.splits if_splits)

lemma consecutive_wf_levels:
  assumes "map fst levels = [lo..hi]" "lo \<le> hi" "sorted (map snd levels)"
  shows "wf_levels levels"
proof -
  have "sorted_wrt (<) (map fst levels)" by (simp add: assms(1))
  moreover from assms(1,2) have "levels \<noteq> []" by auto
  ultimately show ?thesis using assms(3) by (simp add: wf_levels_def)
qed

lemma consecutive_keys:
  assumes "map fst levels = [lo..hi]"
  shows "map_of levels k \<noteq> None \<longleftrightarrow> lo \<le> k \<and> k \<le> hi"
proof -
  have "fst ` set levels = {lo..hi}"
    using arg_cong [OF assms, of set] by simp
  then show ?thesis by (simp add: map_of_eq_None_iff)
qed

section \<open>Lemmas: the tier resolver\<close>

lemma tier_scan_next:
  "snd (tier_scan lvl bh c) = map_option fst (find (\<lambda>(tier, b). lvl < Hunter_Level b) bh)"
  by (induction lvl bh c rule: tier_scan.induct) auto

lemma tier_scan_current:
  assumes "sorted (map (Hunter_Level \<circ> snd) bh)"
  shows "fst (tier_scan lvl bh c) =
     (let unlocked = filter (\<lambda>(tier, b). Hunter_Level b \<le> lvl) bh
      in if unlocked = [] then c else fst (last unlocked))"
  using assms
proof (induction lvl bh c rule: tier_scan.induct)
  case (1 level current_tier)
  then show ?case by simp
next
  case (2 level tier tier_level rest current_tier)
  show ?case
  proof (cases "level < Hunter_Level tier_level")
    case True
    with 2(2) have "\<forall>(k, b) \<in> set rest. level < Hunter_Level b" by fastforce
    then have "filter (\<lambda>(tier, b). Hunter_Level b \<le> level) rest = []"
      by (auto simp: filter_empty_conv)
    with True show ?thesis by simp
  next
    case False
    with 2 show ?thesis by (simp add: Let_def)
  qed
qed






lemma loop_body_Inr:
  assumes "loop_body levels bh target s = Inr s'"
  obtains b t where
    "next_benchmark levels bh target (snd (check_birdhouse_tier (current_level s) bh)) = Inr b"
    "map_of bh (fst (check_birdhouse_tier (current_level s) bh)) = Some t"
    "Hunter_XP t \<noteq> 0"
    "current_xp s' =
       current_xp s + of_int \<lceil>(b - current_xp s) / (Hunter_XP t * 4)\<rceil> * (Hunter_XP t * 4)"
    "check_level levels (current_xp s') = Inr (current_level s')"
    "length (logs_to_target s') = Suc (length (logs_to_target s))"
  using assms
  by (auto simp: loop_body_def Let_def getitem_def
           split: prod.splits sum.splits option.splits if_splits)



section \<open>Lemmas: one iteration of the stepper\<close>





lemma loop_trace_hd: "hd (loop_trace n levels bh target s) = s"
  by (cases n) simp_all

lemma loop_trace_Suc_cases:
  "loop_trace (Suc n) levels bh target s = [s] \<or>
   (\<exists>s'. current_level s < target \<and> loop_body levels bh target s = Inr s' \<and>
      loop_trace (Suc n) levels bh target s = s # loop_trace n levels bh target s')"
  by (auto split: sum.splits)


section \<open>Lemmas: termination of the stepper\<close>







lemma find_lookup:
  assumes "distinct (map fst bh)" "find P bh = Some (k, b)"
  shows "map_of bh k = Some b"
proof -
  from assms(2) have "(k, b) \<in> set bh" by (auto simp: find_Some_iff in_set_conv_nth)
  with assms(1) show ?thesis by (rule map_of_is_SomeI)
qed

lemma stepper_loop_exit:
  "\<not> current_level s < target \<Longrightarrow> stepper_loop levels bh target s = Some (Inr s)"
  by (simp add: stepper_loop.simps)

lemma loop_trace_exit:
  "\<not> current_level s < target \<Longrightarrow> loop_trace n levels bh target s = [s]"
  by (cases n) simp_all

text \<open>
  The trace and the loop agree: when the trace stops before its allowance is used and
  its last state fails the loop condition, that state is the one the loop returns.
\<close>

lemma loop_trace_nonempty: "loop_trace n levels bh target s \<noteq> []"
  by (cases n) simp_all

lemma stepper_loop_last_trace:
  assumes "length (loop_trace n levels bh target s) \<le> n"
    and "\<not> current_level (last (loop_trace n levels bh target s)) < target"
  shows "stepper_loop levels bh target s = Some (Inr (last (loop_trace n levels bh target s)))"
  using assms
proof (induction n arbitrary: s)
  case 0
  then show ?case by simp
next
  case (Suc n)
  from loop_trace_Suc_cases [of n levels bh target s] show ?case
  proof (elim disjE exE conjE)
    assume single: "loop_trace (Suc n) levels bh target s = [s]"
    with Suc.prems(2) have "\<not> current_level s < target" by (simp only: single last.simps) simp
    then show ?thesis unfolding single by (simp add: stepper_loop_exit)
  next
    fix s'
    assume lt: "current_level s < target" and body: "loop_body levels bh target s = Inr s'"
      and tr: "loop_trace (Suc n) levels bh target s = s # loop_trace n levels bh target s'"
    have last: "last (loop_trace (Suc n) levels bh target s)
                  = last (loop_trace n levels bh target s')"
      unfolding tr by (simp add: loop_trace_nonempty)
    from Suc.prems(1) have "length (loop_trace n levels bh target s') \<le> n"
      unfolding tr by simp
    moreover from Suc.prems(2) have
      "\<not> current_level (last (loop_trace n levels bh target s')) < target"
      unfolding last .
    ultimately have "stepper_loop levels bh target s'
        = Some (Inr (last (loop_trace n levels bh target s')))"
      by (rule Suc.IH)
    with lt body show ?thesis unfolding last by (subst stepper_loop.simps) simp
  qed
qed

lemma ceiling_unit_interval:
  fixes q :: rat
  assumes "0 < q" "q \<le> 1"
  shows "\<lceil>q\<rceil> = 1"
  using assms by (simp add: ceiling_eq_iff)

section \<open>Facts about the sample tables\<close>

lemma sample_levels_keys: "map fst sample_levels = [1..25]"
  by (simp add: sample_levels_def upto.simps)

lemma sample_levels_sorted: "sorted (map snd sample_levels)"
  by code_simp

lemma sample_levels_wf: "wf_levels sample_levels"
  by code_simp

lemma sample_birdhouses_distinct: "distinct (map fst sample_birdhouses)"
  by code_simp




section \<open>The level resolver returns the level whose band holds the experience\<close>

text \<open>
  Claim C2. On a level table whose levels are consecutive, written in ascending order
  with thresholds that never decrease, and for an experience value \<open>x\<close> at or above the
  threshold of the lowest level, \<open>check_level\<close> returns a level \<open>l\<close> with
  \<open>L[l] \<le> x\<close> and \<open>x < L[l+1]\<close> (the second bound dropped at the highest level);
  no other level has that property; and when \<open>x\<close> is at or above the threshold of the
  highest level, the result is the highest level.
\<close>

theorem check_level_band:
  assumes keys: "map fst levels = [lo..hi]" and ne: "lo \<le> hi"
    and mono: "sorted (map snd levels)"
    and low: "map_of levels lo = Some e0" and above: "e0 \<le> x"
  shows "\<exists>l. check_level levels x = Inr l \<and> in_level_band levels x l
           \<and> (\<forall>l'. in_level_band levels x l' \<longrightarrow> l' = l)
           \<and> ((\<exists>e. map_of levels hi = Some e \<and> e \<le> x) \<longrightarrow> l = hi)"
proof -
  have wf: "wf_levels levels" by (rule consecutive_wf_levels [OF keys ne mono])
  from check_level_wf [OF wf, of x] obtain l where
    l: "check_level levels x = Inr l" by blast
  note iff = check_level_ge_iff [OF wf l]
  have dom: "\<And>k. map_of levels k \<noteq> None \<longleftrightarrow> lo \<le> k \<and> k \<le> hi"
    by (rule consecutive_keys [OF keys])
  have keyset: "fst ` set levels = {lo..hi}"
    using arg_cong [OF keys, of set] by simp
  from iff [OF low] above have "lo \<le> l" by simp
  moreover from check_level_range [OF l] keyset ne have "l \<le> hi" by auto
  ultimately obtain e where e: "map_of levels l = Some e"
    using dom [of l] by auto
  from iff [OF e] have "e \<le> x" by simp
  moreover have "x < e'" if "map_of levels (l + 1) = Some e'" for e'
    using iff [OF that] by simp
  ultimately have band: "in_level_band levels x l"
    by (simp add: in_level_band_def e split: option.splits)
  have uniq: "l' = l" if b: "in_level_band levels x l'" for l'
  proof -
    from b obtain e' where e': "map_of levels l' = Some e'" "e' \<le> x"
      by (auto simp: in_level_band_def split: option.splits)
    with iff [OF e'(1)] have le: "l' \<le> l" by simp
    show ?thesis
    proof (rule ccontr)
      assume "l' \<noteq> l"
      with le have lt: "l' + 1 \<le> l" by simp
      from e'(1) dom [of l'] have "lo \<le> l'" by simp
      with lt \<open>l \<le> hi\<close> dom [of "l' + 1"] obtain e'' where
        e'': "map_of levels (l' + 1) = Some e''" by auto
      from iff [OF e''] lt have "e'' \<le> x" by simp
      moreover from b e' e'' have "x < e''" by (simp add: in_level_band_def)
      ultimately show False by simp
    qed
  qed
  have top: "l = hi" if "\<exists>e. map_of levels hi = Some e \<and> e \<le> x"
  proof -
    from that obtain e where "map_of levels hi = Some e" "e \<le> x" by blast
    with iff [of hi e] have "hi \<le> l" by simp
    with \<open>l \<le> hi\<close> show ?thesis by simp
  qed
  from l band uniq top show ?thesis by blast
qed


theorem check_level_band_witness:
  "check_level sample_levels 400 = Inr 5 \<and> in_level_band sample_levels 400 5 \<and>
   check_level sample_levels 9000 = Inr 25"
proof -
  have low: "map_of sample_levels 1 = Some 0" by code_simp
  have top: "\<exists>e. map_of sample_levels 25 = Some e \<and> e \<le> 9000"
    by (rule exI [of _ 7842]) code_simp
  have band: "in_level_band sample_levels 400 5" by code_simp
  from check_level_band [OF sample_levels_keys _ sample_levels_sorted low, of 400] band
  have "check_level sample_levels 400 = Inr 5" by auto
  moreover
  from check_level_band [OF sample_levels_keys _ sample_levels_sorted low, of 9000] top
  have "check_level sample_levels 9000 = Inr 25" by auto
  ultimately show ?thesis using band by simp
qed

section \<open>The tier resolver\<close>

text \<open>
  Claim C3. On a tier table written in unlock order, \<open>check_birdhouse_tier\<close> returns the
  last tier whose unlock level is at most the level (the string \<open>"None"\<close> when there is
  none) and the first tier whose unlock level exceeds it (\<open>None\<close> when there is none).
  Below every unlock level the result is the sentinel and the first tier; at or above
  the last tier's unlock level there is no next tier.
\<close>

theorem check_birdhouse_tier_resolves:
  assumes "sorted (map (Hunter_Level \<circ> snd) birdhouses)"
  shows "check_birdhouse_tier lvl birdhouses =
           (last_unlocked lvl birdhouses, first_locked lvl birdhouses)
       \<and> (birdhouses \<noteq> [] \<and> (\<forall>(tier, b) \<in> set birdhouses. lvl < Hunter_Level b)
            \<longrightarrow> check_birdhouse_tier lvl birdhouses = (''None'', Some (fst (hd birdhouses))))
       \<and> (birdhouses \<noteq> [] \<and> Hunter_Level (snd (last birdhouses)) \<le> lvl
            \<longrightarrow> snd (check_birdhouse_tier lvl birdhouses) = None)"
proof (intro conjI impI)
  show res: "check_birdhouse_tier lvl birdhouses =
           (last_unlocked lvl birdhouses, first_locked lvl birdhouses)"
    using tier_scan_current [OF assms, of lvl "''None''"] tier_scan_next [of lvl birdhouses "''None''"]
    by (simp add: check_birdhouse_tier_def last_unlocked_def first_locked_def prod_eq_iff)
  show "check_birdhouse_tier lvl birdhouses = (''None'', Some (fst (hd birdhouses)))"
    if "birdhouses \<noteq> [] \<and> (\<forall>(tier, b) \<in> set birdhouses. lvl < Hunter_Level b)"
    using that by (cases birdhouses) (auto simp: check_birdhouse_tier_def)
  show "snd (check_birdhouse_tier lvl birdhouses) = None"
    if top: "birdhouses \<noteq> [] \<and> Hunter_Level (snd (last birdhouses)) \<le> lvl"
  proof -
    have "\<forall>(tier, b) \<in> set birdhouses. Hunter_Level b \<le> Hunter_Level (snd (last birdhouses))"
    proof -
      from top obtain ys y where ys: "birdhouses = ys @ [y]"
        by (metis append_butlast_last_id)
      with assms show ?thesis by (auto simp: sorted_append)
    qed
    with top have "\<forall>(tier, b) \<in> set birdhouses. \<not> lvl < Hunter_Level b" by fastforce
    then have "find (\<lambda>(tier, b). lvl < Hunter_Level b) birdhouses = None"
      by (auto simp: find_None_iff)
    then show ?thesis by (simp add: check_birdhouse_tier_def tier_scan_next)
  qed
qed

theorem check_birdhouse_tier_resolves_witness:
  "check_birdhouse_tier 17 sample_birdhouses = (''Oak birdhouse'', Some ''Willow birdhouse'') \<and>
   last_unlocked 17 sample_birdhouses = ''Oak birdhouse'' \<and>
   check_birdhouse_tier 3 sample_birdhouses = (''None'', Some ''Regular birdhouse'') \<and>
   snd (check_birdhouse_tier 25 sample_birdhouses) = None"
proof -
  have h: "sorted (map (Hunter_Level \<circ> snd) sample_birdhouses)" by code_simp
  have a: "last_unlocked 17 sample_birdhouses = ''Oak birdhouse''" by code_simp
  have b: "first_locked 17 sample_birdhouses = Some ''Willow birdhouse''" by code_simp
  have c: "sample_birdhouses \<noteq> [] \<and>
      (\<forall>(tier, b) \<in> set sample_birdhouses. 3 < Hunter_Level b)"
    by (simp add: sample_birdhouses_def)
  have d: "fst (hd sample_birdhouses) = ''Regular birdhouse''" by code_simp
  have e: "sample_birdhouses \<noteq> [] \<and> Hunter_Level (snd (last sample_birdhouses)) \<le> 25"
    by (simp add: sample_birdhouses_def)
  from check_birdhouse_tier_resolves [OF h, of 17] a b
  have "check_birdhouse_tier 17 sample_birdhouses = (''Oak birdhouse'', Some ''Willow birdhouse'')"
    by simp
  moreover from check_birdhouse_tier_resolves [OF h, of 3] c
  have "check_birdhouse_tier 3 sample_birdhouses = (''None'', Some (fst (hd sample_birdhouses)))"
    by blast
  then have "check_birdhouse_tier 3 sample_birdhouses = (''None'', Some ''Regular birdhouse'')"
    unfolding d .
  moreover from check_birdhouse_tier_resolves [OF h, of 25] e
  have "snd (check_birdhouse_tier 25 sample_birdhouses) = None"
    by blast
  ultimately show ?thesis using a by simp
qed

section \<open>The benchmark of an iteration\<close>

text \<open>
  Claim C1. In an iteration of the loop of \<open>calc_trips_to_target\<close> that starts at level
  \<open>lvl\<close>, the benchmark the code computes from the next tier is the specification's:
  the target level's threshold when no tier unlocks above \<open>lvl\<close> or the first such tier
  unlocks above the target level, and the threshold of that tier's unlock level
  otherwise (a missing threshold is \<open>KeyError\<close> on both sides). An iteration that
  completes moves \<open>current_xp\<close> by whole trips towards that benchmark. Tier names are the
  keys of a dictionary, hence distinct.
\<close>

theorem next_benchmark_matches_spec:
  assumes "distinct (map fst birdhouses)"
  shows "next_benchmark levels birdhouses target_level
           (snd (check_birdhouse_tier lvl birdhouses))
         = spec_benchmark levels birdhouses target_level lvl
       \<and> (\<forall>s s'. loop_body levels birdhouses target_level s = Inr s' \<longrightarrow>
            (\<exists>benchmark b.
               spec_benchmark levels birdhouses target_level (current_level s) = Inr benchmark
             \<and> map_of birdhouses (fst (check_birdhouse_tier (current_level s) birdhouses)) = Some b
             \<and> current_xp s' =
                 current_xp s
                 + of_int \<lceil>(benchmark - current_xp s) / (Hunter_XP b * 4)\<rceil> * (Hunter_XP b * 4)))"
proof -
  have eq: "next_benchmark levels birdhouses target_level
              (snd (check_birdhouse_tier l birdhouses))
            = spec_benchmark levels birdhouses target_level l" for l
  proof (cases "find (\<lambda>(tier, b). l < Hunter_Level b) birdhouses")
    case None
    then show ?thesis
      by (simp add: next_benchmark_def spec_benchmark_def check_birdhouse_tier_def tier_scan_next)
  next
    case (Some p)
    obtain k b where p: "p = (k, b)" by (cases p)
    from find_lookup [OF assms] Some p have "map_of birdhouses k = Some b" by simp
    with Some p show ?thesis
      by (simp add: next_benchmark_def spec_benchmark_def check_birdhouse_tier_def
                    tier_scan_next getitem_def)
  qed
  have step: "\<exists>benchmark b.
               spec_benchmark levels birdhouses target_level (current_level s) = Inr benchmark
             \<and> map_of birdhouses (fst (check_birdhouse_tier (current_level s) birdhouses)) = Some b
             \<and> current_xp s' =
                 current_xp s
                 + of_int \<lceil>(benchmark - current_xp s) / (Hunter_XP b * 4)\<rceil> * (Hunter_XP b * 4)"
    if "loop_body levels birdhouses target_level s = Inr s'" for s s'
    using that
  proof (rule loop_body_Inr)
    fix benchmark :: rat and t :: "'a birdhouse_scheme"
    assume "next_benchmark levels birdhouses target_level
              (snd (check_birdhouse_tier (current_level s) birdhouses)) = Inr benchmark"
      "map_of birdhouses (fst (check_birdhouse_tier (current_level s) birdhouses)) = Some t"
      "current_xp s' =
         current_xp s
         + of_int \<lceil>(benchmark - current_xp s) / (Hunter_XP t * 4)\<rceil> * (Hunter_XP t * 4)"
    then show ?thesis by (auto simp: eq)
  qed
  from eq step show ?thesis by blast
qed

theorem next_benchmark_matches_spec_witness:
  "next_benchmark sample_levels sample_birdhouses 20
     (snd (check_birdhouse_tier 5 sample_birdhouses)) = Inr 2411 \<and>
   next_benchmark sample_levels sample_birdhouses 20
     (snd (check_birdhouse_tier 15 sample_birdhouses)) = Inr 4470 \<and>
   next_benchmark sample_levels sample_birdhouses 20
     (snd (check_birdhouse_tier 25 sample_birdhouses)) = Inr 4470"
proof -
  have a: "spec_benchmark sample_levels sample_birdhouses 20 5 = Inr 2411" by code_simp
  have b: "spec_benchmark sample_levels sample_birdhouses 20 15 = Inr 4470" by code_simp
  have c: "spec_benchmark sample_levels sample_birdhouses 20 25 = Inr 4470" by code_simp
  note t = next_benchmark_matches_spec [OF sample_birdhouses_distinct, THEN conjunct1]
  from t [of sample_levels 20 5] t [of sample_levels 20 15] t [of sample_levels 20 25] a b c
  show ?thesis by simp
qed

section \<open>The experience grows in every iteration\<close>



section \<open>A target already reached gives the empty plan\<close>

text \<open>
  Claim C9. With a well-formed level table, when the starting experience is at or above
  the target level's threshold, \<open>check_level\<close> returns a level at or above the target,
  the loop makes no iteration and \<open>calc_trips_to_target\<close> returns the empty list.
\<close>

theorem reached_target_gives_empty_plan:
  assumes "wf_levels levels" and "map_of levels target_level = Some target_xp"
    and "target_xp \<le> start_xp"
  shows "\<exists>l. check_level levels start_xp = Inr l \<and> target_level \<le> l
           \<and> calc_trips_to_target levels start_xp target_level birdhouses = Some (Inr [])
           \<and> (\<forall>n. loop_trace n levels birdhouses target_level (init_state start_xp l)
                    = [init_state start_xp l])"
proof -
  from check_level_wf [OF assms(1), of start_xp] obtain l where
    l: "check_level levels start_xp = Inr l" by blast
  from check_level_ge_iff [OF assms(1) l assms(2)] assms(3) have ge: "target_level \<le> l"
    by simp
  then have stop: "\<not> current_level (init_state start_xp l) < target_level"
    by (simp add: init_state_def)
  have "calc_trips_to_target levels start_xp target_level birdhouses = Some (Inr [])"
    by (simp add: calc_trips_to_target_def l stepper_loop_exit [OF stop])
       (simp add: init_state_def)
  with l ge loop_trace_exit [OF stop] show ?thesis by blast
qed

theorem reached_target_gives_empty_plan_witness:
  "check_level sample_levels 1154 = Inr 10 \<and>
   calc_trips_to_target sample_levels 1154 10 sample_birdhouses = Some (Inr []) \<and>
   loop_trace 3 sample_levels sample_birdhouses 10 (init_state 1154 10) = [init_state 1154 10]"
proof -
  have t: "map_of sample_levels 10 = Some 1154" by code_simp
  have l: "check_level sample_levels 1154 = Inr 10" by code_simp
  from reached_target_gives_empty_plan [OF sample_levels_wf t, of 1154 sample_birdhouses] l
  show ?thesis by auto
qed

section \<open>The current tier is a key of the tier table\<close>



section \<open>The stepper terminates within the tier bound\<close>



section \<open>The multiplier scales the yield and nothing else\<close>

text \<open>
  Claim C6. The table \<open>main\<close> derives for a multiplier has the tiers of the base table in
  the same order; in every tier the yield is the base yield times the multiplier, and
  the unlock level and every other field are those of the base tier. Without Leagues
  the table is the base table, and a multiplier of 1 changes nothing.
\<close>

theorem scale_birdhouses_frame:
  "length (scale_birdhouses multiplier base_birdhouses) = length base_birdhouses
   \<and> (\<forall>i < length base_birdhouses.
         fst (scale_birdhouses multiplier base_birdhouses ! i) = fst (base_birdhouses ! i)
       \<and> Hunter_XP (snd (scale_birdhouses multiplier base_birdhouses ! i))
           = Hunter_XP (snd (base_birdhouses ! i)) * multiplier
       \<and> Hunter_Level (snd (scale_birdhouses multiplier base_birdhouses ! i))
           = Hunter_Level (snd (base_birdhouses ! i))
       \<and> birdhouse.more (snd (scale_birdhouses multiplier base_birdhouses ! i))
           = birdhouse.more (snd (base_birdhouses ! i)))
   \<and> (\<forall>relic_tier.
         effective_birdhouses leagues_multipliers base_birdhouses False relic_tier
           = Inr base_birdhouses)
   \<and> (\<forall>relic_tier.
         map_of leagues_multipliers relic_tier = Some multiplier \<longrightarrow>
         effective_birdhouses leagues_multipliers base_birdhouses True relic_tier
           = Inr (scale_birdhouses multiplier base_birdhouses))
   \<and> scale_birdhouses 1 base_birdhouses = base_birdhouses"
proof -
  have "scale_birdhouses 1 base_birdhouses = base_birdhouses"
    by (induction base_birdhouses) (auto simp: scale_birdhouses_def)
  then show ?thesis
    by (auto simp: scale_birdhouses_def effective_birdhouses_def getitem_def split: prod.splits)
qed

theorem scale_birdhouses_frame_witness:
  "scale_birdhouses 8 sample_birdhouses ! 1
     = (''Oak birdhouse'', \<lparr>Hunter_Level = 15, Hunter_XP = 3360\<rparr>) \<and>
   Hunter_XP (snd (scale_birdhouses 8 sample_birdhouses ! 1))
     = Hunter_XP (snd (sample_birdhouses ! 1)) * 8 \<and>
   effective_birdhouses sample_multipliers sample_birdhouses True 3
     = Inr (scale_birdhouses 8 sample_birdhouses)"
proof -
  have i: "1 < length sample_birdhouses" by (simp add: sample_birdhouses_def)
  have m: "map_of sample_multipliers 3 = Some 8" by code_simp
  have v: "scale_birdhouses 8 sample_birdhouses ! 1
     = (''Oak birdhouse'', \<lparr>Hunter_Level = 15, Hunter_XP = 3360\<rparr>)" by code_simp
  from scale_birdhouses_frame [of 8 sample_birdhouses sample_multipliers] i m v
  show ?thesis by blast
qed

section \<open>The input step and a target already passed\<close>

text \<open>
  Claim C7 says that \<open>get_inputs\<close> rejects every experience that meets or exceeds the
  target level's threshold. The guard is \<open>experience > levels[target_level]\<close>, so an
  experience equal to the threshold is accepted: on the sample table, with experience
  1154 and target level 10 (threshold 1154), \<open>get_inputs\<close> prints nothing and returns
  the pair, and \<open>main\<close> goes on to compute a plan, the empty one.
\<close>

theorem get_inputs_equal_threshold_counterexample:
  "getitem sample_levels 10 = Inr 1154 \<and> (1154 :: rat) \<le> of_int 1154 \<and>
   get_inputs sample_levels 1154 10 = Inr ([], Some (1154, 10)) \<and>
   main sample_levels sample_multipliers sample_birdhouses 1154 10 ''0'' 1
     = Some (Inr ([], Some []))"
  by code_simp

text \<open>
  Claim C7, amended. When the parsed experience is at least the level-5 threshold and
  strictly above the target level's threshold, \<open>get_inputs\<close> prints
  \<open>You've already passed your target.\<close> and returns \<open>(None, None)\<close>, and \<open>main\<close>
  computes no plan: it ends with that one line printed, or with the \<open>KeyError\<close> of
  a missing multiplier tier.
\<close>

theorem get_inputs_target_passed:
  assumes "map_of levels 5 = Some level5_xp" and "level5_xp \<le> of_int experience"
    and "map_of levels target_level = Some target_xp"
    and "target_xp < of_int experience"
  shows "get_inputs levels experience target_level
           = Inr ([''You've already passed your target.''], None)
       \<and> main levels leagues_multipliers base_birdhouses experience target_level check relic_tier
           = (case effective_birdhouses leagues_multipliers base_birdhouses
                     (check_leagues check) relic_tier of
                Inl e \<Rightarrow> Some (Inl e)
              | Inr birdhouses \<Rightarrow> Some (Inr ([''You've already passed your target.''], None)))"
proof -
  from assms have
    "get_inputs levels experience target_level
       = Inr ([''You've already passed your target.''], None)"
    by (simp add: get_inputs_def getitem_def)
  then show ?thesis by (simp add: main_def split: sum.splits)
qed

theorem get_inputs_target_passed_witness:
  "get_inputs sample_levels 1200 10 = Inr ([''You've already passed your target.''], None) \<and>
   main sample_levels sample_multipliers sample_birdhouses 1200 10 ''0'' 1
     = Some (Inr ([''You've already passed your target.''], None))"
proof -
  have a: "map_of sample_levels 5 = Some 388" by code_simp
  have b: "map_of sample_levels 10 = Some 1154" by code_simp
  have c: "effective_birdhouses sample_multipliers sample_birdhouses (check_leagues ''0'') 1
             = Inr sample_birdhouses" by code_simp
  from get_inputs_target_passed
         [OF a _ b, of 1200 sample_multipliers sample_birdhouses "''0''" 1] c
  show ?thesis by simp
qed

section \<open>The end-to-end example\<close>

text \<open>
  Claim C8. On every well-formed level table with \<open>L[5] = 388\<close> and \<open>L[10] = 1154\<close>, with
  the single tier \<open>Regular birdhouse\<close> (unlock level 5, yield 280), starting experience
  400 and target level 10: \<open>calc_trips_to_target\<close> returns the one step
  \<open>{"Regular logs": 4}\<close>; the loop makes exactly one iteration, which takes one trip
  (4 logs, \<open>400 + 1 * 1120\<close>) and leaves the experience at 1520, at a level of 10 or
  more; \<open>calc_trips_to_next_benchmark\<close> gives the same trip count, logs and experience.
\<close>

theorem regular_birdhouse_example:
  assumes wf: "wf_levels levels" and l5: "map_of levels 5 = Some 388"
    and l10: "map_of levels 10 = Some 1154"
  shows "calc_trips_to_target levels 400 10 regular_only = Some (Inr [[(''Regular logs'', 4)]])
       \<and> calc_trips_to_next_benchmark levels 400 10 regular_only = Inr (1, 4, 1520)
       \<and> (\<exists>l0 l1. check_level levels 400 = Inr l0 \<and> l0 < 10
             \<and> check_level levels 1520 = Inr l1 \<and> 10 \<le> l1
             \<and> loop_body levels regular_only 10 (init_state 400 l0)
                 = Inr \<lparr>current_xp = 1520, current_level = l1,
                        logs_to_target = [[(''Regular logs'', 4)]]\<rparr>
             \<and> (\<forall>n. loop_trace (Suc n) levels regular_only 10 (init_state 400 l0)
                      = [init_state 400 l0,
                         \<lparr>current_xp = 1520, current_level = l1,
                            logs_to_target = [[(''Regular logs'', 4)]]\<rparr>]))"
proof -
  from check_level_wf [OF wf, of 400] obtain l0 where l0: "check_level levels 400 = Inr l0"
    by blast
  from check_level_wf [OF wf, of 1520] obtain l1 where l1: "check_level levels 1520 = Inr l1"
    by blast
  from check_level_ge_iff [OF wf l0 l5] have ge5: "5 \<le> l0" by simp
  from check_level_ge_iff [OF wf l0 l10] have lt10: "l0 < 10" by simp
  from check_level_ge_iff [OF wf l1 l10] have ge10: "10 \<le> l1" by simp
  have tier: "check_birdhouse_tier l0 regular_only = (''Regular birdhouse'', None)"
    using ge5 by (simp add: check_birdhouse_tier_def regular_only_def)
  have yield: "map_of regular_only ''Regular birdhouse''
                 = Some \<lparr>Hunter_Level = 5, Hunter_XP = 280\<rparr>"
    by (simp add: regular_only_def)
  define s1 where "s1 = \<lparr>current_xp = 1520, current_level = l1,
                          logs_to_target = [[(''Regular logs'', 4)]]\<rparr>"
  have body: "loop_body levels regular_only 10 (init_state 400 l0) = Inr s1"
    by (simp add: loop_body_def init_state_def tier next_benchmark_def getitem_def l10 yield
                  Let_def ceiling_unit_interval l1 format_logs_def s1_def)
  have stop: "\<not> current_level s1 < 10" using ge10 by (simp add: s1_def)
  have start: "current_level (init_state 400 l0) < 10" using lt10 by (simp add: init_state_def)
  have run: "stepper_loop levels regular_only 10 (init_state 400 l0) = Some (Inr s1)"
    using start body stepper_loop_exit [OF stop, of levels regular_only]
    by (subst stepper_loop.simps) simp
  have plan: "calc_trips_to_target levels 400 10 regular_only
                = Some (Inr [[(''Regular logs'', 4)]])"
    by (simp add: calc_trips_to_target_def l0 run) (simp add: s1_def)
  have tr: "loop_trace (Suc n) levels regular_only 10 (init_state 400 l0)
              = [init_state 400 l0, s1]" for n
    using start body loop_trace_exit [OF stop, of n levels regular_only] by simp
  have nb: "calc_trips_to_next_benchmark levels 400 10 regular_only = Inr (1, 4, 1520)"
    by (simp add: calc_trips_to_next_benchmark_def getitem_def l10 l0 tier yield Let_def
                  ceiling_unit_interval)
  from plan nb l0 lt10 l1 ge10 body tr show ?thesis unfolding s1_def by blast
qed

theorem regular_birdhouse_example_witness:
  "calc_trips_to_target sample_levels 400 10 regular_only
     = Some (Inr [[(''Regular logs'', 4)]]) \<and>
   calc_trips_to_next_benchmark sample_levels 400 10 regular_only = Inr (1, 4, 1520) \<and>
   loop_trace 5 sample_levels regular_only 10 (init_state 400 5)
     = [init_state 400 5,
        \<lparr>current_xp = 1520, current_level = 11, logs_to_target = [[(''Regular logs'', 4)]]\<rparr>]"
proof -
  have a: "map_of sample_levels 5 = Some 388" by code_simp
  have b: "map_of sample_levels 10 = Some 1154" by code_simp
  have c: "loop_trace 5 sample_levels regular_only 10 (init_state 400 5)
     = [init_state 400 5,
        \<lparr>current_xp = 1520, current_level = 11, logs_to_target = [[(''Regular logs'', 4)]]\<rparr>]"
    by code_simp
  from regular_birdhouse_example [OF sample_levels_wf a b] c show ?thesis by blast
qed

end
